theory Spec2Isabelle
  imports Main "HOL-Library.Sublist" "HOL-Library.Multiset"
begin

section \<open>Energy report: a model of \<^verbatim>\<open>energylevel.py\<close>\<close>

text \<open>
  The script fetches body-battery, sleep and stress figures for the last 30 days, merges
  them into one entry per date, asks a language model for advice, and renders an HTML
  report. The model below follows the script function by function. Exceptions are values:
  a function that can raise returns \<open>error + 'a\<close>, with \<open>Inl\<close> for the exception. The
  collaborators the script calls (the fitness provider, the chat completion service,
  matplotlib, the template file and the template engine) are fields of a record of
  functions, so every theorem holds for whatever they answer.
\<close>

subsection \<open>Exceptions\<close>

datatype error =
    IndexError
  | KeyError string
  | TypeError
  | ValueError
  | AttributeError
  | ExternalError string

fun bind_err :: "error + 'a \<Rightarrow> ('a \<Rightarrow> error + 'b) \<Rightarrow> error + 'b" where
  "bind_err (Inl e) f = Inl e"
| "bind_err (Inr x) f = f x"

subsection \<open>Lookup tables (lines 28 to 50)\<close>

text \<open>
  Both functions build a dict literal and return \<^verbatim>\<open>mapping.get(code, code)\<close>. The dict is
  an association list in the order of the literal; its keys are distinct, so the first
  match of \<open>map_of\<close> is the dict's entry.
\<close>

definition feedback_mapping :: "(string \<times> string) list" where
  "feedback_mapping = [
    (''NEGATIVE_NOT_RESTORATIVE'',
      ''Sleep is observed to be non-restorative, likely indicating poor sleep quality. This could be due to various factors such as stress, late bedtime, or other disturbances.''),
    (''NEGATIVE_LONG_BUT_NOT_RESTORATIVE'',
      ''Although sleep duration is extended, it is still not restorative. This may be influenced by factors like very strenuous exercise, impacting the overall restfulness of the sleep.''),
    (''NEGATIVE_SHORT_AND_POOR_QUALITY'',
      ''Sleep duration is short, and the quality is poor. This could be a result of insufficient sleep time or other factors affecting the overall sleep experience.''),
    (''NEGATIVE_SHORT_AND_NONRECOVERING'',
      ''Sleep is short, and there's inadequate recovery, likely influenced by factors such as late bedtime. The sleep lacks the necessary duration for proper restoration.''),
    (''POSITIVE_OPTIMAL_STRUCTURE'',
      ''Sleep is structured optimally, suggesting a positive sleep pattern without any notable issues or disturbances. This is indicative of good sleep quality.''),
    (''POSITIVE_LONG_AND_CALM'',
      ''Sleep duration is long and characterized by a calm state. This positive sleep pattern is observed, potentially contributing to better overall well-being.''),
    (''POSITIVE_LONG_AND_CONTINUOUS'',
      ''Sleep duration is both long and continuous, implying a positive and uninterrupted sleep experience. This is generally associated with better restfulness.''),
    (''POSITIVE_DEEP'',
      ''Deep sleep is observed, indicating a positive aspect of the sleep cycle. However, it might be impacted by external factors, such as a stressful day, affecting the overall sleep experience.'')]"

definition dict_get :: "(string \<times> 'v) list \<Rightarrow> string \<Rightarrow> 'v \<Rightarrow> 'v" where
  "dict_get d k dflt = (case map_of d k of None \<Rightarrow> dflt | Some v \<Rightarrow> v)"

definition get_sleep_feedback_explanation :: "string \<Rightarrow> string" where
  "get_sleep_feedback_explanation sleep_feedback =
     dict_get feedback_mapping sleep_feedback sleep_feedback"

definition insight_mapping :: "(string \<times> string) list" where
  "insight_mapping = [
    (''NONE'',
      ''No specific sleep insight is identified. This could mean that there are no notable external factors influencing the sleep pattern during the analyzed period.''),
    (''NEGATIVE_LATE_BED_TIME'',
      ''Sleep is negatively affected by a late bedtime. Going to bed late may disrupt the natural sleep-wake cycle, potentially leading to difficulties in falling asleep or achieving restorative sleep.''),
    (''NEGATIVE_VERY_STRENUOUS_EXERCISE'',
      ''Intense or very strenuous exercise close to bedtime negatively impacts sleep quality. The body needs time to wind down, and vigorous exercise shortly before sleep may interfere with this process.''),
    (''NEGATIVE_STRESSFUL_DAY'',
      ''Sleep is negatively affected by a stressful day. High stress levels can interfere with the ability to relax and unwind, potentially impacting the overall quality of sleep.''),
    (''POSITIVE_EXERCISE'',
      ''The positive influence of exercise on sleep is observed. Regular physical activity is known to contribute to better sleep quality and overall well-being.''),
    (''POSITIVE_LATE_BED_TIME'',
      ''Going to bed late is observed as a positive factor in this context. It's important to note that individual sleep preferences and rhythms can vary, and for some, a later bedtime may align with better sleep quality.'')]"

definition get_sleep_insight_explanation :: "string \<Rightarrow> string" where
  "get_sleep_insight_explanation sleep_insight =
     dict_get insight_mapping sleep_insight sleep_insight"

subsection \<open>Python built-ins used by the script\<close>

text \<open>
  \<^verbatim>\<open>sum\<close> starts at 0 and adds from the left; \<^verbatim>\<open>xs[0]\<close> and \<^verbatim>\<open>xs[-1]\<close> raise IndexError on
  the empty list; \<^verbatim>\<open>max\<close> raises ValueError on the empty list and keeps the first of equal
  maxima; \<^verbatim>\<open>xs.index(v)\<close> is the first position of \<open>v\<close> and raises ValueError when there is
  none; \<^verbatim>\<open>xs.count(v)\<close> is \<open>count_list\<close>.
\<close>

definition py_sum :: "int list \<Rightarrow> int" where
  "py_sum xs = foldl (\<lambda>acc x. acc + x) 0 xs"

definition py_first :: "'a list \<Rightarrow> error + 'a" where
  "py_first xs = (case xs of [] \<Rightarrow> Inl IndexError | x # _ \<Rightarrow> Inr x)"

definition py_last :: "'a list \<Rightarrow> error + 'a" where
  "py_last xs = (case rev xs of [] \<Rightarrow> Inl IndexError | x # _ \<Rightarrow> Inr x)"

fun py_max_from :: "nat \<Rightarrow> nat list \<Rightarrow> nat" where
  "py_max_from m [] = m"
| "py_max_from m (x # xs) = py_max_from (if m < x then x else m) xs"

definition py_max :: "nat list \<Rightarrow> error + nat" where
  "py_max xs = (case xs of [] \<Rightarrow> Inl ValueError | x # rest \<Rightarrow> Inr (py_max_from x rest))"

fun py_index :: "nat list \<Rightarrow> nat \<Rightarrow> error + nat" where
  "py_index [] v = Inl ValueError"
| "py_index (x # xs) v =
     (if x = v then Inr 0 else bind_err (py_index xs v) (\<lambda>i. Inr (Suc i)))"

text \<open>
  \<^verbatim>\<open>str\<close> of an integer is its decimal numeral, with a minus sign when negative;
  \<^verbatim>\<open>sep.join(xs)\<close> puts \<open>sep\<close> between the elements.
\<close>

definition digit_char :: "nat \<Rightarrow> char" where
  "digit_char d = char_of (of_char (CHR ''0'') + d)"

fun str_nat :: "nat \<Rightarrow> string" where
  "str_nat n = (if n < 10 then [digit_char n] else str_nat (n div 10) @ [digit_char (n mod 10)])"

definition str_int :: "int \<Rightarrow> string" where
  "str_int i = (if i < 0 then CHR ''-'' # str_nat (nat (- i)) else str_nat (nat i))"

fun join :: "string \<Rightarrow> string list \<Rightarrow> string" where
  "join sep [] = []"
| "join sep [x] = x"
| "join sep (x # y # ys) = x @ sep @ join sep (y # ys)"

text \<open>
  \<^verbatim>\<open>s.replace(old, new)\<close> scans \<open>s\<close> from the left and replaces every occurrence of \<open>old\<close>
  that does not overlap an occurrence already replaced. For the empty \<open>old\<close> Python puts
  \<open>new\<close> before every character and at the end.
\<close>

fun replace_from :: "string \<Rightarrow> string \<Rightarrow> string \<Rightarrow> string" where
  "replace_from old new [] = []"
| "replace_from old new (c # cs) =
     (if old \<noteq> [] \<and> take (length old) (c # cs) = old
      then new @ replace_from old new (drop (length old) (c # cs))
      else c # replace_from old new cs)"

definition str_replace :: "string \<Rightarrow> string \<Rightarrow> string \<Rightarrow> string" where
  "str_replace s old new =
     (if old = [] then new @ concat (map (\<lambda>c. c # new) s) else replace_from old new s)"

subsection \<open>Dates: \<^verbatim>\<open>strptime(d, "%Y-%m-%d").weekday()\<close> and \<^verbatim>\<open>calendar.day_name\<close>\<close>

text \<open>
  The standard library turns the format into the regular expression
  \<^verbatim>\<open>(\d\d\d\d)-(1[0-2]|0[1-9]|[1-9])-(3[01]|[12]\d|0[1-9]|[1-9]| [1-9])\<close>, matches it at
  the start of the string, and raises ValueError when it does not match or when text
  remains after the match. The alternatives are tried in the order written, which
  \<open>month_alts\<close> and \<open>day_alts\<close> keep. The date must then exist (year at least 1, day within
  the month). Strings are ASCII here. The weekday is the proleptic Gregorian ordinal
  plus 6, modulo 7, so that Monday is 0.
\<close>

definition is_digit :: "char \<Rightarrow> bool" where
  "is_digit c = (c \<in> set ''0123456789'')"

definition digit_val :: "char \<Rightarrow> int" where
  "digit_val c = int (of_char c) - int (of_char (CHR ''0''))"

definition month_alts :: "string \<Rightarrow> (int \<times> string) list" where
  "month_alts s =
     (case s of a # b # r \<Rightarrow>
        (if a = CHR ''1'' \<and> b \<in> set ''012'' then [(10 + digit_val b, r)] else []) @
        (if a = CHR ''0'' \<and> b \<in> set ''123456789'' then [(digit_val b, r)] else [])
      | _ \<Rightarrow> []) @
     (case s of a # r \<Rightarrow> (if a \<in> set ''123456789'' then [(digit_val a, r)] else [])
      | _ \<Rightarrow> [])"

definition day_alts :: "string \<Rightarrow> (int \<times> string) list" where
  "day_alts s =
     (case s of a # b # r \<Rightarrow>
        (if a = CHR ''3'' \<and> b \<in> set ''01'' then [(30 + digit_val b, r)] else []) @
        (if a \<in> set ''12'' \<and> is_digit b then [(10 * digit_val a + digit_val b, r)] else []) @
        (if a = CHR ''0'' \<and> b \<in> set ''123456789'' then [(digit_val b, r)] else [])
      | _ \<Rightarrow> []) @
     (case s of a # r \<Rightarrow> (if a \<in> set ''123456789'' then [(digit_val a, r)] else [])
      | _ \<Rightarrow> []) @
     (case s of a # b # r \<Rightarrow>
        (if a = CHR '' '' \<and> b \<in> set ''123456789'' then [(digit_val b, r)] else [])
      | _ \<Rightarrow> [])"

definition is_leap :: "int \<Rightarrow> bool" where
  "is_leap y = (y mod 4 = 0 \<and> (y mod 100 \<noteq> 0 \<or> y mod 400 = 0))"

definition days_in_month_table :: "int list" where
  "days_in_month_table = [31, 28, 31, 30, 31, 30, 31, 31, 30, 31, 30, 31]"

definition days_in_month :: "int \<Rightarrow> int \<Rightarrow> int" where
  "days_in_month y m =
     (if m = 2 \<and> is_leap y then 29 else days_in_month_table ! nat (m - 1))"

definition days_before_year :: "int \<Rightarrow> int" where
  "days_before_year year =
     (let y = year - 1 in y * 365 + y div 4 - y div 100 + y div 400)"

definition days_before_month :: "int \<Rightarrow> int \<Rightarrow> int" where
  "days_before_month y m =
     sum_list (take (nat (m - 1)) days_in_month_table) + (if m > 2 \<and> is_leap y then 1 else 0)"

definition ymd2ord :: "int \<Rightarrow> int \<Rightarrow> int \<Rightarrow> int" where
  "ymd2ord y m d = days_before_year y + days_before_month y m + d"

definition strptime_ymd :: "string \<Rightarrow> error + (int \<times> int \<times> int)" where
  "strptime_ymd s =
     (case s of
        y1 # y2 # y3 # y4 # rest \<Rightarrow>
          if is_digit y1 \<and> is_digit y2 \<and> is_digit y3 \<and> is_digit y4 then
            (case rest of
               dash1 # rest1 \<Rightarrow>
                 if dash1 = CHR ''-'' then
                   (case concat (map (\<lambda>(m, r).
                            (case r of
                               dash2 # r2 \<Rightarrow>
                                 if dash2 = CHR ''-''
                                 then map (\<lambda>(d, r3). (m, d, r3)) (day_alts r2) else []
                             | [] \<Rightarrow> []))
                          (month_alts rest1)) of
                      [] \<Rightarrow> Inl ValueError
                    | (m, d, remaining) # _ \<Rightarrow>
                        if remaining \<noteq> [] then Inl ValueError
                        else
                          (let y = 1000 * digit_val y1 + 100 * digit_val y2
                                     + 10 * digit_val y3 + digit_val y4
                           in if y < 1 \<or> d > days_in_month y m then Inl ValueError
                              else Inr (y, m, d)))
                 else Inl ValueError
             | [] \<Rightarrow> Inl ValueError)
          else Inl ValueError
      | _ \<Rightarrow> Inl ValueError)"

definition weekday :: "string \<Rightarrow> error + nat" where
  "weekday s =
     bind_err (strptime_ymd s) (\<lambda>(y, m, d). Inr (nat ((ymd2ord y m d + 6) mod 7)))"

definition day_name :: "string list" where
  "day_name = [''Monday'', ''Tuesday'', ''Wednesday'', ''Thursday'', ''Friday'',
               ''Saturday'', ''Sunday'']"

subsection \<open>Daily records and the collaborators\<close>

text \<open>
  An entry of \<^verbatim>\<open>combined_data_array\<close> is a dict with the twelve keys that the main loop
  writes (lines 353 to 366). Report generation reads it as a record: dates are strings,
  body-battery, sleep and stress figures are integers, the two sleep texts are strings.
\<close>

record DailyRecord =
  date :: string
  charged :: int
  drained :: int
  sleep_seconds :: int
  deep_sleep_seconds :: int
  light_sleep_seconds :: int
  rem_sleep_seconds :: int
  awake_sleep_seconds :: int
  sleep_feedback :: string
  sleep_insight :: string
  avg_stress_level :: int
  max_stress_level :: int

text \<open>
  What one \<^verbatim>\<open>plt.savefig\<close> writes: the title, the tick labels, the plotted lines with
  their legend labels, and one bar (colour, height) per date.
\<close>

record chart =
  chart_title :: string
  chart_dates :: "string list"
  chart_lines :: "(string \<times> int list) list"
  chart_bars :: "(string \<times> int) list"

text \<open>The keyword arguments of \<^verbatim>\<open>template.render\<close> (lines 247 to 261).\<close>

record render_context =
  ctx_graph_output_filename :: string
  ctx_stress_graph_output_filename :: string
  ctx_sleep_graph_output_filename :: string
  ctx_advice :: string
  ctx_total_charged :: int
  ctx_total_drained :: int
  ctx_net_energy_level :: int
  ctx_average_trend :: string
  ctx_negative_days :: nat
  ctx_positive_days :: nat
  ctx_negative_days_array :: "DailyRecord list"
  ctx_positive_days_array :: "DailyRecord list"
  ctx_max_day_of_week_negative :: string

text \<open>
  The collaborators of report generation. \<open>new_client\<close> is what \<^verbatim>\<open>OpenAI()\<close> raises, if
  anything. \<open>chat_create\<close> is the chat completion call (model gpt-4, at most 1200 tokens)
  followed by \<^verbatim>\<open>.choices[0].message.content\<close>, which may be \<^verbatim>\<open>None\<close>. \<open>savefig\<close> writes a
  chart to a file. \<open>read_template\<close> opens and reads \<^verbatim>\<open>energy_report_template.html\<close>.
  \<open>render\<close> compiles the template text and renders it. \<open>write_report\<close> writes the report
  file.
\<close>

record collaborators =
  new_client :: "error option"
  chat_create :: "(string \<times> string) list \<Rightarrow> error + string option"
  savefig :: "string \<Rightarrow> chart \<Rightarrow> error option"
  read_template :: "error + string"
  render :: "string \<Rightarrow> render_context \<Rightarrow> error + string"
  write_report :: "string \<Rightarrow> string \<Rightarrow> error option"

fun then_err :: "error option \<Rightarrow> (error + 'b) \<Rightarrow> error + 'b" where
  "then_err (Some e) k = Inl e"
| "then_err None k = k"

subsection \<open>Charts (lines 95 to 174)\<close>

definition bars :: "DailyRecord list \<Rightarrow> (string \<times> int) list" where
  "bars data =
     map (\<lambda>entry. (if charged entry > drained entry then ''green'' else ''red'',
                    max (charged entry) (drained entry))) data"

definition save_drained_vs_charged_plot ::
  "collaborators \<Rightarrow> DailyRecord list \<Rightarrow> error option" where
  "save_drained_vs_charged_plot env data =
     (let dates = map date data in
      case savefig env ''charged_vs_drained_plot.png''
             \<lparr>chart_title = ''Charged vs Drained'', chart_dates = dates,
              chart_lines = [(''Charged'', map charged data), (''Drained'', map drained data)],
              chart_bars = bars data\<rparr> of
        Some e \<Rightarrow> Some e
      | None \<Rightarrow>
     (case savefig env ''stress_level.png''
             \<lparr>chart_title = ''Stress Level Statistics'', chart_dates = dates,
              chart_lines = [(''Average Stress Level'', map avg_stress_level data),
                             (''Max Stress Level'', map max_stress_level data)],
              chart_bars = bars data\<rparr> of
        Some e \<Rightarrow> Some e
      | None \<Rightarrow>
      savefig env ''sleep_statistics.png''
             \<lparr>chart_title = ''Sleep Statistics'', chart_dates = dates,
              chart_lines = [(''Sleep Seconds'', map sleep_seconds data),
                             (''Deep Sleep Seconds'', map deep_sleep_seconds data),
                             (''Light Sleep Seconds'', map light_sleep_seconds data),
                             (''REM Sleep Seconds'', map rem_sleep_seconds data),
                             (''Awake Sleep Seconds'', map awake_sleep_seconds data)],
              chart_bars = bars data\<rparr>))"

subsection \<open>The narrative request (lines 176 to 203)\<close>

definition gpt_assistant_prompt :: string where
  "gpt_assistant_prompt = ''You are an expert sleep, stress and health expert. You spend all your time analyzing sleep and stress data and how it influences the energy level of people. You will analyse the following data to provide an advice on how to improve daily positive energy balances.''"

definition newline :: string where
  "newline = [CHR 0x0A]"

definition prompt_text :: "string \<Rightarrow> string \<Rightarrow> string" where
  "prompt_text first_date last_date =
     ''Analyse the energy balance data from '' @ first_date @ '' to '' @ last_date @
     ''. Body battery charged and drained, sleep, and stress levels. Also include the sleep insights and sleep feedback so you can identify which factors cause negative energy balance and which factors cause a positive day.''"

definition context_text :: "DailyRecord list \<Rightarrow> string" where
  "context_text data =
     newline @ newline @ ''Dates: '' @ join '', '' (map date data) @
     newline @ ''Charged: '' @ join '', '' (map (str_int \<circ> charged) data) @
     newline @ ''Drained: '' @ join '', '' (map (str_int \<circ> drained) data) @
     newline @ ''Sleep (seconds): '' @ join '', '' (map (str_int \<circ> sleep_seconds) data) @
     newline @ ''Avg Stress Level: '' @ join '', '' (map (str_int \<circ> avg_stress_level) data) @
     newline @ ''Sleep feedback: '' @ join '', '' (map sleep_feedback data) @
     newline @ ''Sleep insight: '' @ join '', '' (map sleep_insight data) @
     newline @ newline"

definition generate_energy_balance_analysis ::
  "collaborators \<Rightarrow> DailyRecord list \<Rightarrow> error + string option" where
  "generate_energy_balance_analysis env data =
     (let dates = map date data in
      then_err (new_client env)
        (bind_err (py_first dates) (\<lambda>first_date.
         bind_err (py_last dates) (\<lambda>last_date.
           let input_text = prompt_text first_date last_date @ context_text data;
               message = [(''assistant'', gpt_assistant_prompt), (''user'', input_text)]
           in chat_create env message))))"

subsection \<open>Report generation (lines 205 to 264)\<close>

definition total_charged :: "DailyRecord list \<Rightarrow> int" where
  "total_charged data = py_sum (map charged data)"

definition total_drained :: "DailyRecord list \<Rightarrow> int" where
  "total_drained data = py_sum (map drained data)"

definition net_energy_level :: "DailyRecord list \<Rightarrow> int" where
  "net_energy_level data = total_charged data - total_drained data"

definition average_trend :: "DailyRecord list \<Rightarrow> string" where
  "average_trend data =
     (if net_energy_level data \<ge> 0 then ''Net Positive'' else ''Net Negative'')"

definition negative_days :: "DailyRecord list \<Rightarrow> DailyRecord list" where
  "negative_days data = [entry \<leftarrow> data. charged entry < drained entry]"

definition positive_days :: "DailyRecord list \<Rightarrow> DailyRecord list" where
  "positive_days data = [entry \<leftarrow> data. charged entry \<ge> drained entry]"

definition negative_days_array :: "DailyRecord list \<Rightarrow> DailyRecord list" where
  "negative_days_array data = [day \<leftarrow> data. charged day < drained day]"

definition positive_days_array :: "DailyRecord list \<Rightarrow> DailyRecord list" where
  "positive_days_array data = [day \<leftarrow> data. charged day \<ge> drained day]"

fun days_of_week :: "DailyRecord list \<Rightarrow> error + nat list" where
  "days_of_week [] = Inr []"
| "days_of_week (entry # rest) =
     bind_err (weekday (date entry)) (\<lambda>d.
     bind_err (days_of_week rest) (\<lambda>ds. Inr (d # ds)))"

definition day_of_week_counts :: "nat list \<Rightarrow> nat list" where
  "day_of_week_counts dow = map (\<lambda>day. count_list dow day) [0..<7]"

definition py_nth :: "'a list \<Rightarrow> nat \<Rightarrow> error + 'a" where
  "py_nth xs i = (if i < length xs then Inr (xs ! i) else Inl IndexError)"

definition max_day_of_week_negative :: "DailyRecord list \<Rightarrow> error + string" where
  "max_day_of_week_negative data =
     (if negative_days data \<noteq> [] then
        bind_err (days_of_week (negative_days data)) (\<lambda>dow.
          let counts = day_of_week_counts dow in
          bind_err (py_max counts) (\<lambda>m.
          bind_err (py_index counts m) (\<lambda>i. py_nth day_name i)))
      else Inr ''N/A'')"

definition process_advice :: "string \<Rightarrow> string" where
  "process_advice advice0 =
     (let advice1 = str_replace advice0 newline ''<br>'';
          advice2 = str_replace advice1 ''** '' ''</b>'';
          advice3 = str_replace advice2 ''** '' ''<b>''
      in advice3)"

definition generate_html_report ::
  "collaborators \<Rightarrow> DailyRecord list \<Rightarrow> string \<Rightarrow> error + (render_context \<times> string)" where
  "generate_html_report env data report_output_filename =
     bind_err (generate_energy_balance_analysis env data) (\<lambda>generated_text.
     bind_err (max_day_of_week_negative data) (\<lambda>worst.
     then_err (save_drained_vs_charged_plot env data)
       (case generated_text of
          None \<Rightarrow> Inl AttributeError
        | Some advice0 \<Rightarrow>
            bind_err (read_template env) (\<lambda>template_content.
              let ctx = \<lparr>ctx_graph_output_filename = ''charged_vs_drained_plot.png'',
                         ctx_stress_graph_output_filename = ''stress_level.png'',
                         ctx_sleep_graph_output_filename = ''sleep_statistics.png'',
                         ctx_advice = process_advice advice0,
                         ctx_total_charged = total_charged data,
                         ctx_total_drained = total_drained data,
                         ctx_net_energy_level = net_energy_level data,
                         ctx_average_trend = average_trend data,
                         ctx_negative_days = length (negative_days data),
                         ctx_positive_days = length (positive_days data),
                         ctx_negative_days_array = negative_days_array data,
                         ctx_positive_days_array = positive_days_array data,
                         ctx_max_day_of_week_negative = worst\<rparr>
              in bind_err (render env template_content ctx) (\<lambda>html_report.
                 then_err (write_report env report_output_filename html_report)
                   (Inr (ctx, html_report)))))))"

subsection \<open>Aggregation of the provider's answers (lines 52 to 56 and 328 to 368)\<close>

text \<open>
  The provider answers with parsed JSON. Subscripting with a string key, \<^verbatim>\<open>v["k"]\<close>, returns
  the value stored under the key of a dict, raises KeyError when the dict has no such
  key, and raises TypeError on every other value. The dict of the main loop,
  \<^verbatim>\<open>new_entry\<close>, holds the provider's values as they came.
\<close>

datatype json =
    JNull
  | JBool bool
  | JNum int
  | JStr string
  | JArr "json list"
  | JObj "(string \<times> json) list"

definition subscript :: "json \<Rightarrow> string \<Rightarrow> error + json" where
  "subscript v k =
     (case v of
        JObj kvs \<Rightarrow> (case map_of kvs k of None \<Rightarrow> Inl (KeyError k) | Some x \<Rightarrow> Inr x)
      | _ \<Rightarrow> Inl TypeError)"

fun extract_values :: "json list \<Rightarrow> error + json list" where
  "extract_values [] = Inr []"
| "extract_values (entry # json_data) =
     bind_err (subscript entry ''date'') (\<lambda>d.
     bind_err (subscript entry ''charged'') (\<lambda>c.
     bind_err (subscript entry ''drained'') (\<lambda>dr.
     bind_err (extract_values json_data) (\<lambda>rest.
       Inr (JObj [(''date'', d), (''charged'', c), (''drained'', dr)] # rest)))))"

text \<open>
  The two lookup functions receive whatever the provider stored under the sleep codes.
  \<^verbatim>\<open>mapping.get(code, code)\<close> hashes the key: a list or a dict is unhashable and raises
  TypeError, a string goes through the table, any other value is no key of the table
  and comes back unchanged.
\<close>

definition explain_json :: "(string \<Rightarrow> string) \<Rightarrow> json \<Rightarrow> error + json" where
  "explain_json explanation v =
     (case v of
        JStr code \<Rightarrow> Inr (JStr (explanation code))
      | JArr _ \<Rightarrow> Inl TypeError
      | JObj _ \<Rightarrow> Inl TypeError
      | _ \<Rightarrow> Inr v)"

record provider =
  get_sleep_data :: "json \<Rightarrow> error + json"
  get_stress_data :: "json \<Rightarrow> error + json"

definition sleep_dto_field :: "json \<Rightarrow> string \<Rightarrow> error + json" where
  "sleep_dto_field sleep_data k =
     bind_err (subscript sleep_data ''dailySleepDTO'') (\<lambda>dto. subscript dto k)"

definition new_entry :: "provider \<Rightarrow> json \<Rightarrow> error + json" where
  "new_entry api entry =
     bind_err (subscript entry ''date'') (\<lambda>date_v.
     bind_err (get_sleep_data api date_v) (\<lambda>sleep_data.
     bind_err (sleep_dto_field sleep_data ''sleepTimeSeconds'') (\<lambda>sleep_seconds_v.
     bind_err (sleep_dto_field sleep_data ''deepSleepSeconds'') (\<lambda>deep_sleep_seconds_v.
     bind_err (sleep_dto_field sleep_data ''lightSleepSeconds'') (\<lambda>light_sleep_seconds_v.
     bind_err (sleep_dto_field sleep_data ''remSleepSeconds'') (\<lambda>rem_sleep_seconds_v.
     bind_err (sleep_dto_field sleep_data ''awakeSleepSeconds'') (\<lambda>awake_sleep_seconds_v.
     bind_err (sleep_dto_field sleep_data ''sleepScoreFeedback'') (\<lambda>feedback_code.
     bind_err (explain_json get_sleep_feedback_explanation feedback_code) (\<lambda>sleep_feedback_v.
     bind_err (sleep_dto_field sleep_data ''sleepScoreInsight'') (\<lambda>insight_code.
     bind_err (explain_json get_sleep_insight_explanation insight_code) (\<lambda>sleep_insight_v.
     bind_err (get_stress_data api date_v) (\<lambda>stress_data.
     bind_err (subscript stress_data ''avgStressLevel'') (\<lambda>avg_stress_level_v.
     bind_err (subscript stress_data ''maxStressLevel'') (\<lambda>max_stress_level_v.
     bind_err (subscript entry ''charged'') (\<lambda>charged_v.
     bind_err (subscript entry ''drained'') (\<lambda>drained_v.
       Inr (JObj [(''date'', date_v),
                  (''charged'', charged_v),
                  (''drained'', drained_v),
                  (''sleep_seconds'', sleep_seconds_v),
                  (''deep_sleep_seconds'', deep_sleep_seconds_v),
                  (''light_sleep_seconds'', light_sleep_seconds_v),
                  (''rem_sleep_seconds'', rem_sleep_seconds_v),
                  (''awake_sleep_seconds'', awake_sleep_seconds_v),
                  (''sleep_feedback'', sleep_feedback_v),
                  (''sleep_insight'', sleep_insight_v),
                  (''avg_stress_level'', avg_stress_level_v),
                  (''max_stress_level'', max_stress_level_v)])))))))))))))))))"

fun combine_all :: "provider \<Rightarrow> json list \<Rightarrow> error + json list" where
  "combine_all api [] = Inr []"
| "combine_all api (entry # bb_result_array) =
     bind_err (new_entry api entry) (\<lambda>e.
     bind_err (combine_all api bb_result_array) (\<lambda>rest. Inr (e # rest)))"

definition combined_data_array :: "provider \<Rightarrow> json list \<Rightarrow> error + json list" where
  "combined_data_array api body_battery =
     bind_err (extract_values body_battery) (\<lambda>bb_result_array.
       combine_all api bb_result_array)"

subsection \<open>The end-to-end scenario of the specification\<close>

text \<open>
  Two days, the first drained more than charged, the second the other way round. The
  specification gives date, charged and drained; the other fields are filled in.
\<close>

definition day1 :: DailyRecord where
  "day1 = \<lparr>date = ''2024-01-01'', charged = 50, drained = 80, sleep_seconds = 25200,
           deep_sleep_seconds = 5400, light_sleep_seconds = 14400, rem_sleep_seconds = 4500,
           awake_sleep_seconds = 900, sleep_feedback = ''A'', sleep_insight = ''B'',
           avg_stress_level = 40, max_stress_level = 90\<rparr>"

definition day2 :: DailyRecord where
  "day2 = \<lparr>date = ''2024-01-02'', charged = 90, drained = 40, sleep_seconds = 28800,
           deep_sleep_seconds = 7200, light_sleep_seconds = 14400, rem_sleep_seconds = 6300,
           awake_sleep_seconds = 900, sleep_feedback = ''C'', sleep_insight = ''D'',
           avg_stress_level = 25, max_stress_level = 70\<rparr>"

text \<open>
  Collaborators that all succeed: the chat service answers with a fixed text, the
  renderer returns the advice it was given. The second differs from the first in the
  answer of the chat service only.
\<close>

definition demo_env :: collaborators where
  "demo_env = \<lparr>new_client = None,
               chat_create = (\<lambda>message. Inr (Some ''Rest more.'')),
               savefig = (\<lambda>name c. None),
               read_template = Inr ''<p>{{ advice }}</p>'',
               render = (\<lambda>template_content ctx. Inr (ctx_advice ctx)),
               write_report = (\<lambda>name content. None)\<rparr>"

definition demo_env2 :: collaborators where
  "demo_env2 = demo_env\<lparr>chat_create := (\<lambda>message. Inr (Some ''Sleep earlier.''))\<rparr>"

definition demo_context :: "string \<Rightarrow> render_context" where
  "demo_context text =
     \<lparr>ctx_graph_output_filename = ''charged_vs_drained_plot.png'',
      ctx_stress_graph_output_filename = ''stress_level.png'',
      ctx_sleep_graph_output_filename = ''sleep_statistics.png'',
      ctx_advice = text, ctx_total_charged = 140,
      ctx_total_drained = 120, ctx_net_energy_level = 20,
      ctx_average_trend = ''Net Positive'', ctx_negative_days = 1,
      ctx_positive_days = 1,
      ctx_negative_days_array = [day1],
      ctx_positive_days_array = [day2],
      ctx_max_day_of_week_negative = ''Monday''\<rparr>"

text \<open>A negative Wednesday, for the tie of the specification.\<close>

definition day3 :: DailyRecord where
  "day3 = day1\<lparr>date := ''2024-01-03''\<rparr>"

text \<open>
  A body-battery answer of one day, a provider whose answers are complete, and one whose
  sleep detail lacks the REM duration.
\<close>

definition demo_battery :: "json list" where
  "demo_battery =
     [JObj [(''date'', JStr ''2024-01-01''), (''charged'', JNum 50), (''drained'', JNum 80)]]"

definition demo_sleep_dto :: "(string \<times> json) list" where
  "demo_sleep_dto =
     [(''sleepTimeSeconds'', JNum 25200), (''deepSleepSeconds'', JNum 5400),
      (''lightSleepSeconds'', JNum 14400), (''remSleepSeconds'', JNum 4500),
      (''awakeSleepSeconds'', JNum 900), (''sleepScoreFeedback'', JStr ''POSITIVE_DEEP''),
      (''sleepScoreInsight'', JStr ''SOME_NEW_CODE'')]"

definition demo_api :: provider where
  "demo_api = \<lparr>get_sleep_data = (\<lambda>d. Inr (JObj [(''dailySleepDTO'', JObj demo_sleep_dto)])),
               get_stress_data = (\<lambda>d. Inr (JObj [(''avgStressLevel'', JNum 40),
                                                    (''maxStressLevel'', JNum 90)]))\<rparr>"

definition demo_sleep_dto_no_rem :: "(string \<times> json) list" where
  "demo_sleep_dto_no_rem =
     [(''sleepTimeSeconds'', JNum 25200), (''deepSleepSeconds'', JNum 5400),
      (''lightSleepSeconds'', JNum 14400),
      (''awakeSleepSeconds'', JNum 900), (''sleepScoreFeedback'', JStr ''POSITIVE_DEEP''),
      (''sleepScoreInsight'', JStr ''SOME_NEW_CODE'')]"

definition demo_api_no_rem :: provider where
  "demo_api_no_rem =
     demo_api\<lparr>get_sleep_data :=
       (\<lambda>d. Inr (JObj [(''dailySleepDTO'', JObj demo_sleep_dto_no_rem)]))\<rparr>"

section \<open>Properties\<close>

subsection \<open>Totals, net energy and trend\<close>

lemma foldl_add_sum_list: "foldl (\<lambda>acc x. acc + x) a xs = a + sum_list (xs :: int list)"
  by (induction xs arbitrary: a) simp_all

lemma py_sum_sum_list: "py_sum xs = sum_list xs"
  by (simp add: py_sum_def foldl_add_sum_list)

text \<open>
  Claim C5. For every sequence of daily records, the total charged and the total drained
  are the sums of the records' charged and drained values, the net energy is the total
  charged minus the total drained, and the trend label is "Net Positive" exactly when
  the net energy is at least zero, and "Net Negative" exactly when it is below zero.
\<close>

theorem net_energy_and_trend:
  "total_charged data = (\<Sum>r\<leftarrow>data. charged r) \<and>
   total_drained data = (\<Sum>r\<leftarrow>data. drained r) \<and>
   net_energy_level data = (\<Sum>r\<leftarrow>data. charged r) - (\<Sum>r\<leftarrow>data. drained r) \<and>
   net_energy_level data = total_charged data - total_drained data \<and>
   (average_trend data = ''Net Positive'') = (net_energy_level data \<ge> 0) \<and>
   (average_trend data = ''Net Negative'') = (net_energy_level data < 0)"
  by (simp add: total_charged_def total_drained_def net_energy_level_def average_trend_def
      py_sum_sum_list)

subsection \<open>Negative and positive days\<close>

text \<open>
  Claim C4. For every window, a record of the window is among the negative days exactly
  when its charged value is below its drained value, and among the positive days
  exactly when its charged value is at least its drained value; every record is in
  exactly one of the two lists, the two lists together hold the records of the window
  with their multiplicities, their lengths add up to the length of the window, and each
  list keeps the order of the window.
\<close>

theorem day_partition:
  "(\<forall>r \<in> set data.
      (r \<in> set (negative_days data)) = (charged r < drained r) \<and>
      (r \<in> set (positive_days data)) = (charged r \<ge> drained r) \<and>
      (r \<in> set (negative_days data)) \<noteq> (r \<in> set (positive_days data))) \<and>
   set (negative_days data) \<union> set (positive_days data) = set data \<and>
   set (negative_days data) \<inter> set (positive_days data) = {} \<and>
   mset (negative_days data) + mset (positive_days data) = mset data \<and>
   length (negative_days data) + length (positive_days data) = length data \<and>
   subseq (negative_days data) data \<and>
   subseq (positive_days data) data"
proof -
  have pos: "positive_days data = filter (\<lambda>r. \<not> charged r < drained r) data"
    by (simp add: positive_days_def not_less)
  have m: "mset (negative_days data) + mset (positive_days data) = mset data"
    unfolding pos negative_days_def by simp
  have l: "length (negative_days data) + length (positive_days data) = length data"
    unfolding pos negative_days_def by (rule sum_length_filter_compl)
  show ?thesis
    using m l by (auto simp: negative_days_def positive_days_def)
qed

theorem day_partition_witness:
  "day1 \<in> set [day1, day2] \<and>
   day1 \<in> set (negative_days [day1, day2]) \<and>
   day1 \<notin> set (positive_days [day1, day2]) \<and>
   day2 \<in> set (positive_days [day1, day2]) \<and>
   day2 \<notin> set (negative_days [day1, day2]) \<and>
   length (negative_days [day1, day2]) + length (positive_days [day1, day2]) = 2"
proof -
  have c: "charged day1 < drained day1" "drained day2 \<le> charged day2"
    by (simp_all add: day1_def day2_def)
  have i: "day1 \<in> set [day1, day2]" "day2 \<in> set [day1, day2]"
    by simp_all
  from day_partition [of "[day1, day2]"] c i show ?thesis
    by (metis One_nat_def length_Cons list.size(3) numeral_2_eq_2)
qed

subsection \<open>Successful runs of report generation\<close>

lemma bind_err_Inr: "(bind_err x f = Inr y) = (\<exists>a. x = Inr a \<and> f a = Inr y)"
  by (cases x) simp_all

lemma then_err_Inr: "(then_err x k = Inr y) = (x = None \<and> k = Inr y)"
  by (cases x) simp_all

lemma generate_html_report_Inr:
  assumes "generate_html_report env data report_output_filename = Inr (ctx, html)"
  shows "\<exists>generated worst template_content.
           generate_energy_balance_analysis env data = Inr (Some generated) \<and>
           max_day_of_week_negative data = Inr worst \<and>
           save_drained_vs_charged_plot env data = None \<and>
           read_template env = Inr template_content \<and>
           render env template_content ctx = Inr html \<and>
           write_report env report_output_filename html = None \<and>
           ctx = \<lparr>ctx_graph_output_filename = ''charged_vs_drained_plot.png'',
                  ctx_stress_graph_output_filename = ''stress_level.png'',
                  ctx_sleep_graph_output_filename = ''sleep_statistics.png'',
                  ctx_advice = process_advice generated,
                  ctx_total_charged = total_charged data,
                  ctx_total_drained = total_drained data,
                  ctx_net_energy_level = net_energy_level data,
                  ctx_average_trend = average_trend data,
                  ctx_negative_days = length (negative_days data),
                  ctx_positive_days = length (positive_days data),
                  ctx_negative_days_array = negative_days_array data,
                  ctx_positive_days_array = positive_days_array data,
                  ctx_max_day_of_week_negative = worst\<rparr>"
  using assms unfolding generate_html_report_def
  by (auto simp: bind_err_Inr then_err_Inr Let_def split: option.splits)

lemma save_plot_None:
  assumes "save_drained_vs_charged_plot env data = None"
  shows "\<exists>c1 c2 c3.
           savefig env ''charged_vs_drained_plot.png'' c1 = None \<and>
           chart_title c1 = ''Charged vs Drained'' \<and>
           savefig env ''stress_level.png'' c2 = None \<and>
           chart_title c2 = ''Stress Level Statistics'' \<and>
           savefig env ''sleep_statistics.png'' c3 = None \<and>
           chart_title c3 = ''Sleep Statistics''"
  using assms unfolding save_drained_vs_charged_plot_def Let_def
  by (fastforce split: option.splits)

text \<open>The scenario of the specification, run with collaborators that succeed.\<close>

lemma strptime_day1: "strptime_ymd ''2024-01-01'' = Inr (2024, 1, 1)"
  by (simp add: strptime_ymd_def month_alts_def day_alts_def is_digit_def digit_val_def
      days_in_month_def days_in_month_table_def is_leap_def)

lemma weekday_day1: "weekday ''2024-01-01'' = Inr 0"
  by (simp add: weekday_def strptime_day1 ymd2ord_def days_before_year_def
      days_before_month_def days_in_month_table_def is_leap_def)

lemma upt_7: "[0..<7] = [0, 1, 2, 3, 4, 5, 6]"
  by (simp add: upt_rec)

lemma negative_demo: "negative_days [day1, day2] = [day1]"
  by (simp add: negative_days_def day1_def day2_def)

lemma positive_demo: "positive_days [day1, day2] = [day2]"
  by (simp add: positive_days_def day1_def day2_def)

lemma worst_demo: "max_day_of_week_negative [day1, day2] = Inr ''Monday''"
proof -
  have d: "date day1 = ''2024-01-01''" by (simp add: day1_def)
  have "days_of_week [day1] = Inr [0]"
    by (simp add: d weekday_day1)
  moreover have "day_of_week_counts [0] = [1, 0, 0, 0, 0, 0, 0]"
    by (simp add: day_of_week_counts_def upt_7)
  ultimately show ?thesis
    by (simp add: max_day_of_week_negative_def negative_demo py_max_def py_nth_def day_name_def)
qed

lemma totals_demo:
  "total_charged [day1, day2] = 140" "total_drained [day1, day2] = 120"
  "net_energy_level [day1, day2] = 20" "average_trend [day1, day2] = ''Net Positive''"
  by (simp_all add: average_trend_def net_energy_level_def total_charged_def total_drained_def
      py_sum_def day1_def day2_def)

lemma arrays_demo:
  "negative_days_array [day1, day2] = [day1]" "positive_days_array [day1, day2] = [day2]"
  by (simp_all add: negative_days_array_def positive_days_array_def day1_def day2_def)

lemma demo_run:
  "generate_html_report demo_env [day1, day2] ''energy_report.html'' =
     Inr (demo_context ''Rest more.'', ''Rest more.'')"
proof -
  have a: "generate_energy_balance_analysis demo_env [day1, day2] = Inr (Some ''Rest more.'')"
    by (simp add: generate_energy_balance_analysis_def demo_env_def py_first_def py_last_def)
  have p: "save_drained_vs_charged_plot demo_env [day1, day2] = None"
    by (simp add: save_drained_vs_charged_plot_def demo_env_def)
  have adv: "process_advice ''Rest more.'' = ''Rest more.''"
    by (simp add: process_advice_def str_replace_def newline_def)
  show ?thesis
    unfolding generate_html_report_def a worst_demo p
    by (simp add: adv totals_demo negative_demo positive_demo arrays_demo demo_env_def
        demo_context_def)
qed

lemma demo_run2:
  "generate_html_report demo_env2 [day1, day2] ''energy_report.html'' =
     Inr (demo_context ''Sleep earlier.'', ''Sleep earlier.'')"
proof -
  have a: "generate_energy_balance_analysis demo_env2 [day1, day2] = Inr (Some ''Sleep earlier.'')"
    by (simp add: generate_energy_balance_analysis_def demo_env2_def demo_env_def py_first_def
        py_last_def)
  have p: "save_drained_vs_charged_plot demo_env2 [day1, day2] = None"
    by (simp add: save_drained_vs_charged_plot_def demo_env2_def demo_env_def)
  have adv: "process_advice ''Sleep earlier.'' = ''Sleep earlier.''"
    by (simp add: process_advice_def str_replace_def newline_def)
  show ?thesis
    unfolding generate_html_report_def a worst_demo p
    by (simp add: adv totals_demo negative_demo positive_demo arrays_demo demo_env_def
        demo_env2_def demo_context_def)
qed

subsection \<open>The empty window\<close>

lemma empty_analysis:
  "generate_energy_balance_analysis env [] =
     Inl (case new_client env of Some e \<Rightarrow> e | None \<Rightarrow> IndexError)"
  by (simp add: generate_energy_balance_analysis_def py_first_def split: option.splits)

text \<open>
  Claim C2. For the empty sequence of daily records, report generation fails: building
  the narrative request raises (the error of the chat client when it cannot be
  constructed, IndexError on the first date otherwise), the error propagates out of
  report generation, and neither a summary nor a report is produced.
\<close>

theorem empty_window_fails:
  "generate_energy_balance_analysis env [] =
     Inl (case new_client env of Some e \<Rightarrow> e | None \<Rightarrow> IndexError) \<and>
   generate_html_report env [] report_output_filename =
     Inl (case new_client env of Some e \<Rightarrow> e | None \<Rightarrow> IndexError)"
  by (simp add: generate_html_report_def empty_analysis)

subsection \<open>The two copies of each filter\<close>

text \<open>
  Claim C10. The list of negative days used for the count and the list of negative
  days handed to the template are equal for every input, and so are the two lists of
  positive days; hence, in the context of every run that completes, the negative and
  positive counts are the lengths of the negative and positive lists.
\<close>

theorem duplicate_filters_agree:
  "negative_days data = negative_days_array data \<and>
   positive_days data = positive_days_array data \<and>
   (generate_html_report env data report_output_filename = Inr (ctx, html) \<longrightarrow>
      ctx_negative_days ctx = length (ctx_negative_days_array ctx) \<and>
      ctx_positive_days ctx = length (ctx_positive_days_array ctx))"
proof -
  have eq: "negative_days data = negative_days_array data"
       "positive_days data = positive_days_array data"
    by (simp_all add: negative_days_def negative_days_array_def positive_days_def
        positive_days_array_def)
  show ?thesis
  proof (intro conjI impI)
    assume "generate_html_report env data report_output_filename = Inr (ctx, html)"
    from generate_html_report_Inr [OF this] eq
    show "ctx_negative_days ctx = length (ctx_negative_days_array ctx)"
      and "ctx_positive_days ctx = length (ctx_positive_days_array ctx)"
      by auto
  qed (rule eq)+
qed

theorem duplicate_filters_agree_witness:
  "generate_html_report demo_env [day1, day2] ''energy_report.html'' =
     Inr (demo_context ''Rest more.'', ''Rest more.'') \<and>
   ctx_negative_days (demo_context ''Rest more.'') =
     length (ctx_negative_days_array (demo_context ''Rest more.'')) \<and>
   ctx_positive_days (demo_context ''Rest more.'') =
     length (ctx_positive_days_array (demo_context ''Rest more.''))"
  using duplicate_filters_agree [of "[day1, day2]" demo_env "''energy_report.html''"
      "demo_context ''Rest more.''" "''Rest more.''"] demo_run
  by simp

subsection \<open>The rendering context\<close>

text \<open>
  Claim C9. In every run of report generation that completes, the context handed to
  the template renderer holds the total charged, the total drained, the net energy,
  the trend label, the counts and the full lists of negative and positive days, the
  worst weekday, the file names of the three charts (energy, stress, sleep) under
  which the charts were saved, and the processed narrative text; the report is what
  the renderer made of the template and this context.
\<close>

theorem rendering_context_contents:
  assumes "generate_html_report env data report_output_filename = Inr (ctx, html)"
  shows "ctx_total_charged ctx = (\<Sum>r\<leftarrow>data. charged r) \<and>
         ctx_total_drained ctx = (\<Sum>r\<leftarrow>data. drained r) \<and>
         ctx_net_energy_level ctx = (\<Sum>r\<leftarrow>data. charged r) - (\<Sum>r\<leftarrow>data. drained r) \<and>
         ctx_average_trend ctx =
           (if (\<Sum>r\<leftarrow>data. charged r) - (\<Sum>r\<leftarrow>data. drained r) \<ge> 0
            then ''Net Positive'' else ''Net Negative'') \<and>
         ctx_negative_days ctx = length [r \<leftarrow> data. charged r < drained r] \<and>
         ctx_positive_days ctx = length [r \<leftarrow> data. charged r \<ge> drained r] \<and>
         ctx_negative_days_array ctx = [r \<leftarrow> data. charged r < drained r] \<and>
         ctx_positive_days_array ctx = [r \<leftarrow> data. charged r \<ge> drained r] \<and>
         max_day_of_week_negative data = Inr (ctx_max_day_of_week_negative ctx) \<and>
         ctx_graph_output_filename ctx = ''charged_vs_drained_plot.png'' \<and>
         ctx_stress_graph_output_filename ctx = ''stress_level.png'' \<and>
         ctx_sleep_graph_output_filename ctx = ''sleep_statistics.png'' \<and>
         (\<exists>c1 c2 c3.
            savefig env (ctx_graph_output_filename ctx) c1 = None \<and>
            chart_title c1 = ''Charged vs Drained'' \<and>
            savefig env (ctx_stress_graph_output_filename ctx) c2 = None \<and>
            chart_title c2 = ''Stress Level Statistics'' \<and>
            savefig env (ctx_sleep_graph_output_filename ctx) c3 = None \<and>
            chart_title c3 = ''Sleep Statistics'') \<and>
         (\<exists>generated.
            generate_energy_balance_analysis env data = Inr (Some generated) \<and>
            ctx_advice ctx = process_advice generated) \<and>
         (\<exists>template_content.
            read_template env = Inr template_content \<and>
            render env template_content ctx = Inr html)"
proof -
  from generate_html_report_Inr [OF assms] obtain generated worst template_content where
    g: "generate_energy_balance_analysis env data = Inr (Some generated)" and
    w: "max_day_of_week_negative data = Inr worst" and
    p: "save_drained_vs_charged_plot env data = None" and
    t: "read_template env = Inr template_content" and
    r: "render env template_content ctx = Inr html" and
    c: "ctx = \<lparr>ctx_graph_output_filename = ''charged_vs_drained_plot.png'',
                  ctx_stress_graph_output_filename = ''stress_level.png'',
                  ctx_sleep_graph_output_filename = ''sleep_statistics.png'',
                  ctx_advice = process_advice generated,
                  ctx_total_charged = total_charged data,
                  ctx_total_drained = total_drained data,
                  ctx_net_energy_level = net_energy_level data,
                  ctx_average_trend = average_trend data,
                  ctx_negative_days = length (negative_days data),
                  ctx_positive_days = length (positive_days data),
                  ctx_negative_days_array = negative_days_array data,
                  ctx_positive_days_array = positive_days_array data,
                  ctx_max_day_of_week_negative = worst\<rparr>"
    by blast
  have files: "ctx_graph_output_filename ctx = ''charged_vs_drained_plot.png''"
    "ctx_stress_graph_output_filename ctx = ''stress_level.png''"
    "ctx_sleep_graph_output_filename ctx = ''sleep_statistics.png''"
    by (simp_all add: c)
  have charts: "\<exists>c1 c2 c3.
            savefig env (ctx_graph_output_filename ctx) c1 = None \<and>
            chart_title c1 = ''Charged vs Drained'' \<and>
            savefig env (ctx_stress_graph_output_filename ctx) c2 = None \<and>
            chart_title c2 = ''Stress Level Statistics'' \<and>
            savefig env (ctx_sleep_graph_output_filename ctx) c3 = None \<and>
            chart_title c3 = ''Sleep Statistics''"
    unfolding files by (rule save_plot_None [OF p])
  have summary: "ctx_total_charged ctx = (\<Sum>r\<leftarrow>data. charged r)"
    "ctx_total_drained ctx = (\<Sum>r\<leftarrow>data. drained r)"
    "ctx_net_energy_level ctx = (\<Sum>r\<leftarrow>data. charged r) - (\<Sum>r\<leftarrow>data. drained r)"
    "ctx_average_trend ctx =
           (if (\<Sum>r\<leftarrow>data. charged r) - (\<Sum>r\<leftarrow>data. drained r) \<ge> 0
            then ''Net Positive'' else ''Net Negative'')"
    "ctx_negative_days ctx = length [r \<leftarrow> data. charged r < drained r]"
    "ctx_positive_days ctx = length [r \<leftarrow> data. charged r \<ge> drained r]"
    "ctx_negative_days_array ctx = [r \<leftarrow> data. charged r < drained r]"
    "ctx_positive_days_array ctx = [r \<leftarrow> data. charged r \<ge> drained r]"
    by (simp_all add: c total_charged_def total_drained_def net_energy_level_def
        average_trend_def py_sum_sum_list negative_days_def positive_days_def
        negative_days_array_def positive_days_array_def)
  have worst: "max_day_of_week_negative data = Inr (ctx_max_day_of_week_negative ctx)"
    by (simp add: c w)
  have adv: "\<exists>generated.
            generate_energy_balance_analysis env data = Inr (Some generated) \<and>
            ctx_advice ctx = process_advice generated"
    using g by (simp add: c)
  have rend: "\<exists>template_content.
            read_template env = Inr template_content \<and>
            render env template_content ctx = Inr html"
    using t r by blast
  show ?thesis
    using summary worst files charts adv rend by blast
qed

theorem rendering_context_contents_witness:
  "generate_html_report demo_env [day1, day2] ''energy_report.html'' =
     Inr (demo_context ''Rest more.'', ''Rest more.'') \<and>
   ctx_total_charged (demo_context ''Rest more.'') = (\<Sum>r\<leftarrow>[day1, day2]. charged r) \<and>
   ctx_negative_days_array (demo_context ''Rest more.'') =
     [r \<leftarrow> [day1, day2]. charged r < drained r] \<and>
   max_day_of_week_negative [day1, day2] =
     Inr (ctx_max_day_of_week_negative (demo_context ''Rest more.'')) \<and>
   ctx_sleep_graph_output_filename (demo_context ''Rest more.'') = ''sleep_statistics.png''"
  using rendering_context_contents [OF demo_run] demo_run
  by simp

subsection \<open>The summary does not depend on the collaborators\<close>

text \<open>
  Claim C8. Summarising is a function of the daily records alone: two runs of report
  generation over the same sequence of daily records, whatever the collaborators
  answer in each and whatever the name of the report file, put the same totals, net
  energy, trend label, negative and positive counts and lists, and worst weekday into
  their contexts.
\<close>

theorem summary_independent_of_collaborators:
  assumes "generate_html_report env1 data name1 = Inr (ctx1, html1)"
      and "generate_html_report env2 data name2 = Inr (ctx2, html2)"
  shows "ctx_total_charged ctx1 = ctx_total_charged ctx2 \<and>
         ctx_total_drained ctx1 = ctx_total_drained ctx2 \<and>
         ctx_net_energy_level ctx1 = ctx_net_energy_level ctx2 \<and>
         ctx_average_trend ctx1 = ctx_average_trend ctx2 \<and>
         ctx_negative_days ctx1 = ctx_negative_days ctx2 \<and>
         ctx_positive_days ctx1 = ctx_positive_days ctx2 \<and>
         ctx_negative_days_array ctx1 = ctx_negative_days_array ctx2 \<and>
         ctx_positive_days_array ctx1 = ctx_positive_days_array ctx2 \<and>
         ctx_max_day_of_week_negative ctx1 = ctx_max_day_of_week_negative ctx2"
  using generate_html_report_Inr [OF assms(1)] generate_html_report_Inr [OF assms(2)]
  by auto

theorem summary_independent_of_collaborators_witness:
  "generate_html_report demo_env [day1, day2] ''energy_report.html'' =
     Inr (demo_context ''Rest more.'', ''Rest more.'') \<and>
   generate_html_report demo_env2 [day1, day2] ''energy_report.html'' =
     Inr (demo_context ''Sleep earlier.'', ''Sleep earlier.'') \<and>
   ctx_total_charged (demo_context ''Rest more.'') =
     ctx_total_charged (demo_context ''Sleep earlier.'') \<and>
   ctx_negative_days_array (demo_context ''Rest more.'') =
     ctx_negative_days_array (demo_context ''Sleep earlier.'') \<and>
   ctx_max_day_of_week_negative (demo_context ''Rest more.'') =
     ctx_max_day_of_week_negative (demo_context ''Sleep earlier.'')"
  using summary_independent_of_collaborators [OF demo_run demo_run2] demo_run demo_run2
  by simp

subsection \<open>The worst weekday\<close>



lemma py_max_from_fold: "py_max_from m xs = fold max xs m"
  by (induction xs arbitrary: m) (auto simp: max_def)

lemma py_max_Max: "xs \<noteq> [] \<Longrightarrow> py_max xs = Inr (Max (set xs))"
proof (cases xs)
  case Nil
  assume "xs \<noteq> []"
  with Nil show ?thesis by simp
next
  case (Cons x rest)
  have "Max (set (x # rest)) = fold max rest x"
    by (rule Max.set_eq_fold)
  then show ?thesis
    unfolding Cons py_max_def by (simp only: list.case py_max_from_fold)
qed

lemma py_index_first:
  "v \<in> set xs \<Longrightarrow>
     \<exists>i<length xs. py_index xs v = Inr i \<and> xs ! i = v \<and> (\<forall>j<i. xs ! j \<noteq> v)"
proof (induction xs)
  case Nil
  then show ?case by simp
next
  case (Cons x xs)
  show ?case
  proof (cases "x = v")
    case True
    then show ?thesis by simp
  next
    case False
    with Cons.prems have "v \<in> set xs" by simp
    from Cons.IH [OF this] obtain i where
      i: "i < length xs" "py_index xs v = Inr i" "xs ! i = v" "\<forall>j<i. xs ! j \<noteq> v"
      by blast
    have "\<forall>j<Suc i. (x # xs) ! j \<noteq> v"
      using False i(4) by (auto simp: nth_Cons split: nat.splits)
    with i False show ?thesis by auto
  qed
qed

lemma weekday_range: "weekday s = Inr d \<Longrightarrow> d < 7"
  unfolding weekday_def
  by (cases "strptime_ymd s") (auto split: prod.splits)

lemma days_of_week_count:
  "days_of_week rs = Inr dow \<Longrightarrow>
     count_list dow j = length [r \<leftarrow> rs. weekday (date r) = Inr j]"
proof (induction rs arbitrary: dow)
  case Nil
  then show ?case by simp
next
  case (Cons r rs)
  from Cons.prems obtain d ds where
    d: "weekday (date r) = Inr d" and ds: "days_of_week rs = Inr ds" and dow: "dow = d # ds"
    by (auto simp: bind_err_Inr)
  from Cons.IH [OF ds] d dow show ?case by auto
qed

lemma days_of_week_defined:
  "\<forall>r\<in>set rs. \<exists>d. weekday (date r) = Inr d \<Longrightarrow> \<exists>dow. days_of_week rs = Inr dow"
  by (induction rs) auto

lemma day_of_week_counts_nth:
  "length (day_of_week_counts dow) = 7"
  "j < 7 \<Longrightarrow> day_of_week_counts dow ! j = count_list dow j"
  by (simp_all add: day_of_week_counts_def)

lemma worst_of_counts:
  assumes "days_of_week rs = Inr dow"
  shows "\<exists>i<7.
           bind_err (py_max (day_of_week_counts dow)) (\<lambda>m.
             bind_err (py_index (day_of_week_counts dow) m) (\<lambda>i. py_nth day_name i))
             = Inr (day_name ! i) \<and>
           (\<forall>j<7. count_list dow j \<le> count_list dow i) \<and>
           (\<forall>j<i. count_list dow j < count_list dow i)"
proof -
  let ?c = "day_of_week_counts dow"
  have ne: "?c \<noteq> []" using day_of_week_counts_nth(1) [of dow] by auto
  have mx: "py_max ?c = Inr (Max (set ?c))" by (rule py_max_Max [OF ne])
  have "Max (set ?c) \<in> set ?c" using ne by (intro Max_in) simp_all
  from py_index_first [OF this] obtain i where
    i: "i < length ?c" "py_index ?c (Max (set ?c)) = Inr i" "?c ! i = Max (set ?c)"
       "\<forall>j<i. ?c ! j \<noteq> Max (set ?c)"
    by blast
  have i7: "i < 7" using i(1) by (simp add: day_of_week_counts_nth)
  have le: "?c ! j \<le> Max (set ?c)" if "j < 7" for j
  proof (rule Max_ge)
    show "finite (set ?c)" by simp
    show "?c ! j \<in> set ?c"
      using that by (intro nth_mem) (simp add: day_of_week_counts_nth)
  qed
  have a: "\<forall>j<7. count_list dow j \<le> count_list dow i"
    using le i(3) i7 by (simp add: day_of_week_counts_nth)
  have b: "\<forall>j<i. count_list dow j < count_list dow i"
  proof (intro allI impI)
    fix j assume "j < i"
    then have "j < 7" using i7 by simp
    from le [OF this] i(4) \<open>j < i\<close> have "?c ! j < Max (set ?c)"
      by (simp add: le_neq_trans)
    then show "count_list dow j < count_list dow i"
      using i(3) i7 \<open>j < 7\<close> by (simp add: day_of_week_counts_nth)
  qed
  have "py_nth day_name i = Inr (day_name ! i)"
    using i7 by (simp add: py_nth_def day_name_def)
  with mx i(2) a b i7 show ?thesis by auto
qed

text \<open>
  Claim C3. When the window has no negative day, the worst weekday is "N/A". When it
  has at least one negative day and the date of every negative day is a date that
  \<^verbatim>\<open>strptime\<close> accepts, the worst weekday is the name, in the order Monday = 0 to
  Sunday = 6, of a weekday on which the largest number of negative days fall, and every
  weekday of lower index has strictly fewer negative days: ties go to the lowest
  index. Negative days on a Wednesday and on a Monday, one each, give "Monday".
\<close>

theorem worst_weekday:
  "(negative_days data = [] \<longrightarrow> max_day_of_week_negative data = Inr ''N/A'') \<and>
   (negative_days data \<noteq> [] \<and>
    (\<forall>r \<in> set (negative_days data). \<exists>d. weekday (date r) = Inr d) \<longrightarrow>
      (\<exists>i<7. max_day_of_week_negative data = Inr (day_name ! i) \<and>
         (\<forall>j. length [r \<leftarrow> negative_days data. weekday (date r) = Inr j]
                \<le> length [r \<leftarrow> negative_days data. weekday (date r) = Inr i]) \<and>
         (\<forall>j<i. length [r \<leftarrow> negative_days data. weekday (date r) = Inr j]
                < length [r \<leftarrow> negative_days data. weekday (date r) = Inr i])))"
proof (intro conjI impI)
  assume "negative_days data = []"
  then show "max_day_of_week_negative data = Inr ''N/A''"
    by (simp add: max_day_of_week_negative_def)
next
  let ?neg = "negative_days data"
  let ?cnt = "\<lambda>j. length [r \<leftarrow> ?neg. weekday (date r) = Inr j]"
  assume h: "?neg \<noteq> [] \<and> (\<forall>r \<in> set ?neg. \<exists>d. weekday (date r) = Inr d)"
  then obtain dow where dow: "days_of_week ?neg = Inr dow"
    using days_of_week_defined by blast
  have cnt: "count_list dow j = ?cnt j" for j
    by (rule days_of_week_count [OF dow])
  from worst_of_counts [OF dow] obtain i where
    i: "i < 7"
       "bind_err (py_max (day_of_week_counts dow)) (\<lambda>m.
             bind_err (py_index (day_of_week_counts dow) m) (\<lambda>i. py_nth day_name i))
             = Inr (day_name ! i)"
       "\<forall>j<7. count_list dow j \<le> count_list dow i"
       "\<forall>j<i. count_list dow j < count_list dow i"
    by blast
  have res: "max_day_of_week_negative data = Inr (day_name ! i)"
    using h dow i(2) by (simp add: max_day_of_week_negative_def Let_def)
  have zero: "?cnt j = 0" if "\<not> j < 7" for j
    using that weekday_range by (auto simp: filter_empty_conv)
  have all: "\<forall>j. ?cnt j \<le> ?cnt i"
  proof
    fix j show "?cnt j \<le> ?cnt i"
    proof (cases "j < 7")
      case True
      with i(3) show ?thesis by (simp add: cnt)
    next
      case False
      from zero [OF this] show ?thesis by simp
    qed
  qed
  have less: "\<forall>j<i. ?cnt j < ?cnt i"
    using i(4) by (simp add: cnt)
  from res all less i(1)
  show "\<exists>i<7. max_day_of_week_negative data = Inr (day_name ! i) \<and>
         (\<forall>j. ?cnt j \<le> ?cnt i) \<and> (\<forall>j<i. ?cnt j < ?cnt i)"
    by blast
qed


lemma strptime_day3: "strptime_ymd ''2024-01-03'' = Inr (2024, 1, 3)"
  by (simp add: strptime_ymd_def month_alts_def day_alts_def is_digit_def digit_val_def
      days_in_month_def days_in_month_table_def is_leap_def)

lemma weekday_day3: "weekday ''2024-01-03'' = Inr 2"
  by (simp add: weekday_def strptime_day3 ymd2ord_def days_before_year_def
      days_before_month_def days_in_month_table_def is_leap_def)

lemma negative_tie: "negative_days [day3, day1] = [day3, day1]"
  by (simp add: negative_days_def day3_def day1_def)

lemma worst_tie: "max_day_of_week_negative [day3, day1] = Inr ''Monday''"
proof -
  have d: "date day1 = ''2024-01-01''" "date day3 = ''2024-01-03''"
    by (simp_all add: day1_def day3_def)
  have "days_of_week [day3, day1] = Inr [2, 0]"
    by (simp add: d weekday_day1 weekday_day3)
  moreover have "day_of_week_counts [2, 0] = [1, 0, 1, 0, 0, 0, 0]"
    by (simp add: day_of_week_counts_def upt_7)
  ultimately show ?thesis
    by (simp add: max_day_of_week_negative_def negative_tie py_max_def py_nth_def day_name_def)
qed

theorem worst_weekday_witness:
  "negative_days [day3, day1] = [day3, day1] \<and>
   weekday (date day3) = Inr 2 \<and> weekday (date day1) = Inr 0 \<and>
   max_day_of_week_negative [day3, day1] = Inr ''Monday'' \<and>
   (\<exists>i<7. max_day_of_week_negative [day3, day1] = Inr (day_name ! i) \<and>
      (\<forall>j. length [r \<leftarrow> negative_days [day3, day1]. weekday (date r) = Inr j]
             \<le> length [r \<leftarrow> negative_days [day3, day1]. weekday (date r) = Inr i]) \<and>
      (\<forall>j<i. length [r \<leftarrow> negative_days [day3, day1]. weekday (date r) = Inr j]
             < length [r \<leftarrow> negative_days [day3, day1]. weekday (date r) = Inr i]))"
proof -
  have d: "weekday (date day3) = Inr 2" "weekday (date day1) = Inr 0"
    by (simp_all add: day1_def day3_def weekday_day1 weekday_day3)
  have ne: "negative_days [day3, day1] \<noteq> []"
    by (simp add: negative_tie)
  have ok: "\<forall>r \<in> set (negative_days [day3, day1]). \<exists>d. weekday (date r) = Inr d"
    by (simp add: negative_tie d)
  from worst_weekday [of "[day3, day1]"] ne ok d worst_tie negative_tie show ?thesis
    by blast
qed

subsection \<open>The lookup tables\<close>

text \<open>
  Claim C6. Both lookup functions are total functions from strings to strings. Each of
  the eight sleep-feedback codes is mapped to its explanation, each of the six
  sleep-insight codes is mapped to its explanation, and every other string is returned
  unchanged.
\<close>

theorem lookup_tables:
  "get_sleep_feedback_explanation ''NEGATIVE_NOT_RESTORATIVE'' =
     ''Sleep is observed to be non-restorative, likely indicating poor sleep quality. This could be due to various factors such as stress, late bedtime, or other disturbances.'' \<and>
   get_sleep_feedback_explanation ''NEGATIVE_LONG_BUT_NOT_RESTORATIVE'' =
     ''Although sleep duration is extended, it is still not restorative. This may be influenced by factors like very strenuous exercise, impacting the overall restfulness of the sleep.'' \<and>
   get_sleep_feedback_explanation ''NEGATIVE_SHORT_AND_POOR_QUALITY'' =
     ''Sleep duration is short, and the quality is poor. This could be a result of insufficient sleep time or other factors affecting the overall sleep experience.'' \<and>
   get_sleep_feedback_explanation ''NEGATIVE_SHORT_AND_NONRECOVERING'' =
     ''Sleep is short, and there's inadequate recovery, likely influenced by factors such as late bedtime. The sleep lacks the necessary duration for proper restoration.'' \<and>
   get_sleep_feedback_explanation ''POSITIVE_OPTIMAL_STRUCTURE'' =
     ''Sleep is structured optimally, suggesting a positive sleep pattern without any notable issues or disturbances. This is indicative of good sleep quality.'' \<and>
   get_sleep_feedback_explanation ''POSITIVE_LONG_AND_CALM'' =
     ''Sleep duration is long and characterized by a calm state. This positive sleep pattern is observed, potentially contributing to better overall well-being.'' \<and>
   get_sleep_feedback_explanation ''POSITIVE_LONG_AND_CONTINUOUS'' =
     ''Sleep duration is both long and continuous, implying a positive and uninterrupted sleep experience. This is generally associated with better restfulness.'' \<and>
   get_sleep_feedback_explanation ''POSITIVE_DEEP'' =
     ''Deep sleep is observed, indicating a positive aspect of the sleep cycle. However, it might be impacted by external factors, such as a stressful day, affecting the overall sleep experience.'' \<and>
   get_sleep_insight_explanation ''NONE'' =
     ''No specific sleep insight is identified. This could mean that there are no notable external factors influencing the sleep pattern during the analyzed period.'' \<and>
   get_sleep_insight_explanation ''NEGATIVE_LATE_BED_TIME'' =
     ''Sleep is negatively affected by a late bedtime. Going to bed late may disrupt the natural sleep-wake cycle, potentially leading to difficulties in falling asleep or achieving restorative sleep.'' \<and>
   get_sleep_insight_explanation ''NEGATIVE_VERY_STRENUOUS_EXERCISE'' =
     ''Intense or very strenuous exercise close to bedtime negatively impacts sleep quality. The body needs time to wind down, and vigorous exercise shortly before sleep may interfere with this process.'' \<and>
   get_sleep_insight_explanation ''NEGATIVE_STRESSFUL_DAY'' =
     ''Sleep is negatively affected by a stressful day. High stress levels can interfere with the ability to relax and unwind, potentially impacting the overall quality of sleep.'' \<and>
   get_sleep_insight_explanation ''POSITIVE_EXERCISE'' =
     ''The positive influence of exercise on sleep is observed. Regular physical activity is known to contribute to better sleep quality and overall well-being.'' \<and>
   get_sleep_insight_explanation ''POSITIVE_LATE_BED_TIME'' =
     ''Going to bed late is observed as a positive factor in this context. It's important to note that individual sleep preferences and rhythms can vary, and for some, a later bedtime may align with better sleep quality.'' \<and>
   (code \<notin> set [''NEGATIVE_NOT_RESTORATIVE'', ''NEGATIVE_LONG_BUT_NOT_RESTORATIVE'', ''NEGATIVE_SHORT_AND_POOR_QUALITY'', ''NEGATIVE_SHORT_AND_NONRECOVERING'', ''POSITIVE_OPTIMAL_STRUCTURE'', ''POSITIVE_LONG_AND_CALM'', ''POSITIVE_LONG_AND_CONTINUOUS'', ''POSITIVE_DEEP''] \<longrightarrow>
      get_sleep_feedback_explanation code = code) \<and>
   (code \<notin> set [''NONE'', ''NEGATIVE_LATE_BED_TIME'', ''NEGATIVE_VERY_STRENUOUS_EXERCISE'', ''NEGATIVE_STRESSFUL_DAY'', ''POSITIVE_EXERCISE'', ''POSITIVE_LATE_BED_TIME''] \<longrightarrow>
      get_sleep_insight_explanation code = code)"
  by (simp add: get_sleep_feedback_explanation_def get_sleep_insight_explanation_def
      dict_get_def feedback_mapping_def insight_mapping_def)

theorem lookup_tables_witness:
  "''SOME_NEW_CODE'' \<notin> set [''NEGATIVE_NOT_RESTORATIVE'', ''NEGATIVE_LONG_BUT_NOT_RESTORATIVE'', ''NEGATIVE_SHORT_AND_POOR_QUALITY'', ''NEGATIVE_SHORT_AND_NONRECOVERING'', ''POSITIVE_OPTIMAL_STRUCTURE'', ''POSITIVE_LONG_AND_CALM'', ''POSITIVE_LONG_AND_CONTINUOUS'', ''POSITIVE_DEEP''] \<and>
   get_sleep_feedback_explanation ''SOME_NEW_CODE'' = ''SOME_NEW_CODE'' \<and>
   ''SOME_NEW_CODE'' \<notin> set [''NONE'', ''NEGATIVE_LATE_BED_TIME'', ''NEGATIVE_VERY_STRENUOUS_EXERCISE'', ''NEGATIVE_STRESSFUL_DAY'', ''POSITIVE_EXERCISE'', ''POSITIVE_LATE_BED_TIME''] \<and>
   get_sleep_insight_explanation ''SOME_NEW_CODE'' = ''SOME_NEW_CODE''"
  using lookup_tables [of "''SOME_NEW_CODE''"]
  by simp

subsection \<open>Aggregation and missing fields\<close>

lemma new_entry_Inr:
  assumes "new_entry api entry = Inr out"
  shows "\<exists>d sl st.
           subscript entry ''date'' = Inr d \<and>
           get_sleep_data api d = Inr sl \<and>
           (\<forall>k \<in> set [''sleepTimeSeconds'', ''deepSleepSeconds'', ''lightSleepSeconds'',
                        ''remSleepSeconds'', ''awakeSleepSeconds'', ''sleepScoreFeedback'',
                        ''sleepScoreInsight'']. \<exists>v. sleep_dto_field sl k = Inr v) \<and>
           get_stress_data api d = Inr st \<and>
           (\<forall>k \<in> set [''avgStressLevel'', ''maxStressLevel'']. \<exists>v. subscript st k = Inr v)"
  using assms unfolding new_entry_def
  by (simp add: bind_err_Inr) blast

lemma combine_all_Inr:
  "combine_all api bb = Inr out \<Longrightarrow> x \<in> set bb \<Longrightarrow> \<exists>y. new_entry api x = Inr y"
  by (induction bb arbitrary: out) (auto simp: bind_err_Inr)

lemma combine_all_length: "combine_all api bb = Inr out \<Longrightarrow> length out = length bb"
  by (induction bb arbitrary: out) (auto simp: bind_err_Inr)

lemma extract_values_length: "extract_values js = Inr bb \<Longrightarrow> length bb = length js"
  by (induction js arbitrary: bb) (auto simp: bind_err_Inr)

lemma extract_values_Inr:
  "extract_values js = Inr bb \<Longrightarrow> e \<in> set js \<Longrightarrow>
     \<exists>d c dr. subscript e ''date'' = Inr d \<and> subscript e ''charged'' = Inr c \<and>
       subscript e ''drained'' = Inr dr \<and>
       JObj [(''date'', d), (''charged'', c), (''drained'', dr)] \<in> set bb"
  by (induction js arbitrary: bb) (auto simp: bind_err_Inr)

lemma subscript_JObj:
  "subscript (JObj kvs) k = (case map_of kvs k of None \<Rightarrow> Inl (KeyError k) | Some x \<Rightarrow> Inr x)"
  by (simp add: subscript_def)

lemma combined_data_array_Inr:
  assumes ok: "combined_data_array api js = Inr out" and e: "e \<in> set js"
  shows "\<exists>d c dr sl st.
           subscript e ''date'' = Inr d \<and> subscript e ''charged'' = Inr c \<and>
           subscript e ''drained'' = Inr dr \<and>
           get_sleep_data api d = Inr sl \<and>
           (\<forall>k \<in> set [''sleepTimeSeconds'', ''deepSleepSeconds'', ''lightSleepSeconds'',
                        ''remSleepSeconds'', ''awakeSleepSeconds'', ''sleepScoreFeedback'',
                        ''sleepScoreInsight'']. \<exists>v. sleep_dto_field sl k = Inr v) \<and>
           get_stress_data api d = Inr st \<and>
           (\<forall>k \<in> set [''avgStressLevel'', ''maxStressLevel'']. \<exists>v. subscript st k = Inr v)"
proof -
  from ok obtain bb where bb: "extract_values js = Inr bb" and all: "combine_all api bb = Inr out"
    by (auto simp: combined_data_array_def bind_err_Inr)
  from extract_values_Inr [OF bb e] obtain d c dr where
    f: "subscript e ''date'' = Inr d" "subscript e ''charged'' = Inr c"
       "subscript e ''drained'' = Inr dr" and
    x: "JObj [(''date'', d), (''charged'', c), (''drained'', dr)] \<in> set bb"
    by blast
  from combine_all_Inr [OF all x] obtain y where
    y: "new_entry api (JObj [(''date'', d), (''charged'', c), (''drained'', dr)]) = Inr y"
    by blast
  have "subscript (JObj [(''date'', d), (''charged'', c), (''drained'', dr)]) ''date'' = Inr d"
    by (simp add: subscript_JObj)
  with new_entry_Inr [OF y] f show ?thesis by auto
qed


text \<open>
  Claim C7. Aggregation treats a missing required field as an error of the whole run.
  When an entry of the body-battery answer lacks the date, the charged or the drained
  value, or the sleep answer for its date lacks the sleep detail or the detail lacks one
  of the five durations or two codes, or the stress answer for its date lacks the
  average or the maximum, then aggregation returns an error: no entry is built with a
  default in place of the missing value, and no list without that date is returned.
\<close>

theorem missing_field_is_fatal:
  assumes "e \<in> set body_battery" and "e = JObj kvs"
  shows
    "(k \<in> set [''date'', ''charged'', ''drained''] \<and> map_of kvs k = None \<longrightarrow>
        (\<exists>err. combined_data_array api body_battery = Inl err)) \<and>
     (map_of kvs ''date'' = Some d \<and> get_sleep_data api d = Inr (JObj sl) \<and>
      map_of sl ''dailySleepDTO'' = None \<longrightarrow>
        (\<exists>err. combined_data_array api body_battery = Inl err)) \<and>
     (map_of kvs ''date'' = Some d \<and> get_sleep_data api d = Inr (JObj sl) \<and>
      map_of sl ''dailySleepDTO'' = Some (JObj dto) \<and>
      k \<in> set [''sleepTimeSeconds'', ''deepSleepSeconds'', ''lightSleepSeconds'',
                ''remSleepSeconds'', ''awakeSleepSeconds'', ''sleepScoreFeedback'',
                ''sleepScoreInsight''] \<and>
      map_of dto k = None \<longrightarrow>
        (\<exists>err. combined_data_array api body_battery = Inl err)) \<and>
     (map_of kvs ''date'' = Some d \<and> get_stress_data api d = Inr (JObj st) \<and>
      k \<in> set [''avgStressLevel'', ''maxStressLevel''] \<and> map_of st k = None \<longrightarrow>
        (\<exists>err. combined_data_array api body_battery = Inl err))"
proof (cases "combined_data_array api body_battery")
  case (Inl err)
  then show ?thesis by simp
next
  case (Inr out)
  from combined_data_array_Inr [OF Inr assms(1)] obtain d' c dr sl' st' where
    b: "subscript e ''date'' = Inr d'" "subscript e ''charged'' = Inr c"
       "subscript e ''drained'' = Inr dr" and
    s: "get_sleep_data api d' = Inr sl'"
       "\<forall>k \<in> set [''sleepTimeSeconds'', ''deepSleepSeconds'', ''lightSleepSeconds'',
                    ''remSleepSeconds'', ''awakeSleepSeconds'', ''sleepScoreFeedback'',
                    ''sleepScoreInsight'']. \<exists>v. sleep_dto_field sl' k = Inr v" and
    t: "get_stress_data api d' = Inr st'"
       "\<forall>k \<in> set [''avgStressLevel'', ''maxStressLevel'']. \<exists>v. subscript st' k = Inr v"
    by blast
  have battery: "\<not> (k \<in> set [''date'', ''charged'', ''drained''] \<and> map_of kvs k = None)"
    using b unfolding assms(2) subscript_JObj by (auto split: option.splits)
  have date: "d' = d" if "map_of kvs ''date'' = Some d"
    using b(1) that unfolding assms(2) subscript_JObj by simp
  have no_dto: "\<not> (map_of kvs ''date'' = Some d \<and> get_sleep_data api d = Inr (JObj sl) \<and>
      map_of sl ''dailySleepDTO'' = None)"
  proof
    assume h: "map_of kvs ''date'' = Some d \<and> get_sleep_data api d = Inr (JObj sl) \<and>
      map_of sl ''dailySleepDTO'' = None"
    with date s(1) have "sl' = JObj sl" by simp
    with h have "sleep_dto_field sl' ''sleepTimeSeconds'' = Inl (KeyError ''dailySleepDTO'')"
      by (simp add: sleep_dto_field_def subscript_JObj)
    with s(2) show False by simp
  qed
  have no_field: "\<not> (map_of kvs ''date'' = Some d \<and> get_sleep_data api d = Inr (JObj sl) \<and>
      map_of sl ''dailySleepDTO'' = Some (JObj dto) \<and>
      k \<in> set [''sleepTimeSeconds'', ''deepSleepSeconds'', ''lightSleepSeconds'',
                ''remSleepSeconds'', ''awakeSleepSeconds'', ''sleepScoreFeedback'',
                ''sleepScoreInsight''] \<and>
      map_of dto k = None)"
  proof
    assume h: "map_of kvs ''date'' = Some d \<and> get_sleep_data api d = Inr (JObj sl) \<and>
      map_of sl ''dailySleepDTO'' = Some (JObj dto) \<and>
      k \<in> set [''sleepTimeSeconds'', ''deepSleepSeconds'', ''lightSleepSeconds'',
                ''remSleepSeconds'', ''awakeSleepSeconds'', ''sleepScoreFeedback'',
                ''sleepScoreInsight''] \<and>
      map_of dto k = None"
    with date s(1) have "sl' = JObj sl" by simp
    with h have "sleep_dto_field sl' k = Inl (KeyError k)"
      by (simp add: sleep_dto_field_def subscript_JObj)
    moreover from s(2) h have "\<exists>v. sleep_dto_field sl' k = Inr v" by blast
    ultimately show False by simp
  qed
  have no_stress: "\<not> (map_of kvs ''date'' = Some d \<and> get_stress_data api d = Inr (JObj st) \<and>
      k \<in> set [''avgStressLevel'', ''maxStressLevel''] \<and> map_of st k = None)"
  proof
    assume h: "map_of kvs ''date'' = Some d \<and> get_stress_data api d = Inr (JObj st) \<and>
      k \<in> set [''avgStressLevel'', ''maxStressLevel''] \<and> map_of st k = None"
    with date t(1) have "st' = JObj st" by simp
    with h have "subscript st' k = Inl (KeyError k)"
      by (simp add: subscript_JObj)
    moreover from t(2) h have "\<exists>v. subscript st' k = Inr v" by blast
    ultimately show False by simp
  qed
  from battery no_dto no_field no_stress show ?thesis by blast
qed

lemma demo_complete:
  "combined_data_array demo_api demo_battery =
     Inr [JObj [(''date'', JStr ''2024-01-01''), (''charged'', JNum 50), (''drained'', JNum 80),
                (''sleep_seconds'', JNum 25200), (''deep_sleep_seconds'', JNum 5400),
                (''light_sleep_seconds'', JNum 14400), (''rem_sleep_seconds'', JNum 4500),
                (''awake_sleep_seconds'', JNum 900),
                (''sleep_feedback'', JStr (get_sleep_feedback_explanation ''POSITIVE_DEEP'')),
                (''sleep_insight'', JStr ''SOME_NEW_CODE''),
                (''avg_stress_level'', JNum 40), (''max_stress_level'', JNum 90)]]"
proof -
  have "get_sleep_insight_explanation ''SOME_NEW_CODE'' = ''SOME_NEW_CODE''"
    by (simp add: get_sleep_insight_explanation_def dict_get_def insight_mapping_def)
  then show ?thesis
    by (simp add: combined_data_array_def demo_battery_def new_entry_def demo_api_def
        demo_sleep_dto_def sleep_dto_field_def subscript_def explain_json_def)
qed

lemma demo_no_rem:
  "combined_data_array demo_api_no_rem demo_battery = Inl (KeyError ''remSleepSeconds'')"
  by (simp add: combined_data_array_def demo_battery_def new_entry_def demo_api_def
      demo_api_no_rem_def demo_sleep_dto_no_rem_def sleep_dto_field_def subscript_def
      explain_json_def)

theorem missing_field_is_fatal_witness:
  "JObj [(''date'', JStr ''2024-01-01''), (''charged'', JNum 50), (''drained'', JNum 80)]
     \<in> set demo_battery \<and>
   map_of [(''date'', JStr ''2024-01-01''), (''charged'', JNum 50), (''drained'', JNum 80)]
     ''date'' = Some (JStr ''2024-01-01'') \<and>
   get_sleep_data demo_api_no_rem (JStr ''2024-01-01'') =
     Inr (JObj [(''dailySleepDTO'', JObj demo_sleep_dto_no_rem)]) \<and>
   map_of [(''dailySleepDTO'', JObj demo_sleep_dto_no_rem)] ''dailySleepDTO'' =
     Some (JObj demo_sleep_dto_no_rem) \<and>
   map_of demo_sleep_dto_no_rem ''remSleepSeconds'' = None \<and>
   (\<exists>err. combined_data_array demo_api_no_rem demo_battery = Inl err) \<and>
   combined_data_array demo_api_no_rem demo_battery = Inl (KeyError ''remSleepSeconds'')"
proof -
  have m: "JObj [(''date'', JStr ''2024-01-01''), (''charged'', JNum 50), (''drained'', JNum 80)]
     \<in> set demo_battery"
    by (simp add: demo_battery_def)
  have g: "get_sleep_data demo_api_no_rem (JStr ''2024-01-01'') =
     Inr (JObj [(''dailySleepDTO'', JObj demo_sleep_dto_no_rem)])"
    by (simp add: demo_api_no_rem_def demo_api_def)
  have r: "map_of demo_sleep_dto_no_rem ''remSleepSeconds'' = None"
    by (simp add: demo_sleep_dto_no_rem_def)
  from missing_field_is_fatal [OF m refl, of "''remSleepSeconds''" demo_api_no_rem
      "JStr ''2024-01-01''" "[(''dailySleepDTO'', JObj demo_sleep_dto_no_rem)]"
      demo_sleep_dto_no_rem] g r demo_no_rem m
  show ?thesis by simp
qed

subsection \<open>Post-processing of the narrative\<close>


lemma replace_from_hit:
  "old \<noteq> [] \<and> take (length old) (c # cs) = old \<Longrightarrow>
     replace_from old new (c # cs) = new @ replace_from old new (drop (length old) (c # cs))"
  by simp

lemma replace_from_miss:
  "\<not> (old \<noteq> [] \<and> take (length old) (c # cs) = old) \<Longrightarrow>
     replace_from old new (c # cs) = c # replace_from old new cs"
  by auto

lemma replace_from_keeps_out:
  "c \<notin> set s \<Longrightarrow> c \<notin> set new \<Longrightarrow> c \<notin> set (replace_from old new s)"
proof (induction old new s rule: replace_from.induct)
  case (1 old new)
  then show ?case by simp
next
  case (2 old new x xs)
  show ?case
  proof (cases "old \<noteq> [] \<and> take (length old) (x # xs) = old")
    case True
    have "c \<notin> set (drop (length old) (x # xs))"
      using "2.prems"(1) by (meson in_set_dropD)
    from "2.IH"(1) [OF True this "2.prems"(2)] "2.prems"(2) show ?thesis
      by (simp only: replace_from_hit [OF True] set_append Un_iff) simp
  next
    case False
    from "2.prems"(1) have "c \<notin> set xs" "c \<noteq> x" by auto
    with "2.IH"(2) [OF False _ "2.prems"(2)] show ?thesis
      by (simp only: replace_from_miss [OF False]) simp
  qed
qed

lemma replace_newline_gone: "CHR 0x0A \<notin> set (replace_from newline ''<br>'' s)"
  by (induction s) (auto simp: newline_def)

lemma closing_head:
  assumes "take 3 (c # replace_from ''** '' ''</b>'' cs) = ''** ''"
  shows "take 3 (c # cs) = ''** ''"
proof (cases cs)
  case Nil
  with assms show ?thesis by simp
next
  case (Cons c1 cs1)
  show ?thesis
  proof (cases cs1)
    case Nil
    with assms Cons show ?thesis by (simp split: if_splits)
  next
    case (Cons c2 cs2)
    with assms \<open>cs = c1 # cs1\<close> show ?thesis
      by (cases cs2) (simp_all split: if_splits)
  qed
qed

lemma opening_skips_closing:
  "replace_from ''** '' ''<b>'' (''</b>'' @ r) = ''</b>'' @ replace_from ''** '' ''<b>'' r"
  by simp

lemma opening_replace_dead:
  "replace_from ''** '' ''<b>'' (replace_from ''** '' ''</b>'' s) = replace_from ''** '' ''</b>'' s"
proof (induction "''** ''" "''</b>''" s rule: replace_from.induct)
  case 1
  then show ?case by simp
next
  case (2 c cs)
  define rest where "rest = drop (length ''** '') (c # cs)"
  show ?case
  proof (cases "''** '' \<noteq> [] \<and> take (length ''** '') (c # cs) = ''** ''")
    case True
    from "2.hyps"(1) [OF True]
    have ih: "replace_from ''** '' ''<b>'' (replace_from ''** '' ''</b>'' rest) =
                replace_from ''** '' ''</b>'' rest"
      by (simp only: rest_def)
    have u: "replace_from ''** '' ''</b>'' (c # cs) = ''</b>'' @ replace_from ''** '' ''</b>'' rest"
      unfolding rest_def by (rule replace_from_hit [OF True])
    show ?thesis
      by (simp only: u opening_skips_closing ih)
  next
    case False
    from "2.hyps"(2) [OF False]
    have ih: "replace_from ''** '' ''<b>'' (replace_from ''** '' ''</b>'' cs) =
                replace_from ''** '' ''</b>'' cs" .
    have u: "replace_from ''** '' ''</b>'' (c # cs) = c # replace_from ''** '' ''</b>'' cs"
      by (rule replace_from_miss [OF False])
    have l: "length ''** '' = 3" by simp
    from False have "take (length ''** '') (c # cs) \<noteq> ''** ''" by blast
    then have "take 3 (c # cs) \<noteq> ''** ''" unfolding l .
    with closing_head [of c cs]
    have "take 3 (c # replace_from ''** '' ''</b>'' cs) \<noteq> ''** ''" by blast
    then have "take (length ''** '') (c # replace_from ''** '' ''</b>'' cs) \<noteq> ''** ''"
      unfolding l .
    then have n: "\<not> (''** '' \<noteq> [] \<and>
        take (length ''** '') (c # replace_from ''** '' ''</b>'' cs) = ''** '')"
      by blast
    show ?thesis
      unfolding u by (simp only: replace_from_miss [OF n] ih)
  qed
qed

text \<open>
  Claim C1. Post-processing of the narrative replaces every newline by \<^verbatim>\<open><br>\<close>, so no
  newline is left in the processed text. The delimiter \<^verbatim>\<open>"** "\<close> is then replaced
  twice, first by the closing marker and then by the opening marker; the first
  replacement leaves no delimiter behind, so the second changes nothing: every
  occurrence becomes a closing marker and none an opening one. The text
  \<^verbatim>\<open>"** a** b"\<close>, with two occurrences, becomes \<^verbatim>\<open>"</b>a</b>b"\<close>, where alternating
  pairing would give \<^verbatim>\<open>"<b>a</b>b"\<close>.
\<close>

theorem bold_markers_never_open:
  "process_advice ''** a** b'' = ''</b>a</b>b'' \<and>
   process_advice s = str_replace (str_replace s newline ''<br>'') ''** '' ''</b>'' \<and>
   CHR 0x0A \<notin> set (process_advice s)"
proof -
  have e: "process_advice ''** a** b'' = ''</b>a</b>b''"
    by (simp add: process_advice_def str_replace_def newline_def)
  have d: "process_advice s = str_replace (str_replace s newline ''<br>'') ''** '' ''</b>''"
    by (simp add: process_advice_def str_replace_def opening_replace_dead)
  have "CHR 0x0A \<notin> set (replace_from ''** '' ''</b>'' (replace_from newline ''<br>'' s))"
    by (rule replace_from_keeps_out [OF replace_newline_gone]) simp
  then have "CHR 0x0A \<notin> set (str_replace (str_replace s newline ''<br>'') ''** '' ''</b>'')"
    by (simp add: str_replace_def newline_def)
  with e d show ?thesis by simp
qed

end
